theory Spec2Isabelle
  imports Main "HOL-Library.Word"
begin

unbundle bit_operations_syntax

section \<open>Host metrics probe: kernel files, process states, login records, intranet test\<close>

text \<open>
  A shallow embedding of \<^verbatim>\<open>agent/sysinfo/kernel_linux.go\<close> and of
  \<^verbatim>\<open>IsIntranet\<close> in \<^verbatim>\<open>agent/common/ip.go\<close>.

  Conventions of the embedding.
  \<^item> A Go \<^verbatim>\<open>[]byte\<close> read from the login log is a list of \<open>8 word\<close>; a Go
    \<^verbatim>\<open>string\<close> (and the textual output of \<^verbatim>\<open>ps\<close>) is a \<open>string\<close>, whose
    characters are bytes.
  \<^item> \<^verbatim>\<open>int16\<close>, \<^verbatim>\<open>int32\<close>, \<^verbatim>\<open>int64\<close> and \<^verbatim>\<open>uint64\<close> are words of that width;
    \<open>sint\<close> reads the signed ones. Go's \<^verbatim>\<open>int\<close> holds every value the code converts
    into it and is an \<open>int\<close>.
  \<^item> A Go result pair \<^verbatim>\<open>(value, error)\<close> of a collaborator is a sum, \<open>Inl\<close> the error.
    \<^verbatim>\<open>Read\<close> keeps Go's pair, because what it returns beside an error matters.
  \<^item> A run-time panic is a value of type \<open>panic\<close>; a function that can panic returns
    \<open>panic + 'a\<close>.
  \<^item> Logging is an effect: each function returns the entries it logged, in order.
  \<^item> A pointer is an \<open>option\<close>, \<open>None\<close> being \<^verbatim>\<open>nil\<close>.
\<close>

subsection \<open>Errors, panics, log entries\<close>

datatype error =
    EOF
  | ErrUnexpectedEOF
  | ErrSyntax
  | ErrRange
  | Failure string

datatype panic = NilPointerDereference | IndexOutOfRange

datatype log_entry =
    LogError string error
  | LogErrorf string string

subsection \<open>Metric samples\<close>

text \<open>
  \<^verbatim>\<open>common.Metric\<close> is declared outside the files at hand; its fields are the four
  that \<^verbatim>\<open>WtmpMetrics\<close> assigns. \<^verbatim>\<open>Value\<close> holds what the callers put
  there: a \<^verbatim>\<open>uint64\<close>, an \<^verbatim>\<open>int64\<close>, a \<^verbatim>\<open>float64\<close> (kept abstract, type \<open>'f\<close>)
  or the constant \<^verbatim>\<open>1\<close>. A \<^verbatim>\<open>nil\<close> tag map is the empty map.
\<close>

datatype 'f metric_value =
    Uint64 "64 word"
  | Int64 "64 word"
  | Float64 'f
  | IntConst int

type_synonym tags = "string \<rightharpoonup> string"

record 'f Metric =
  Name :: string
  Value :: "'f metric_value"
  Timestamp :: int
  Tags :: tags

type_synonym 'f MetricPtr = "'f Metric option"

text \<open>
  A store through a pointer, \<^verbatim>\<open>m.Field = v\<close>: a nil pointer dereference when the
  pointer is \<^verbatim>\<open>nil\<close>.
\<close>

definition store :: "'a option \<Rightarrow> ('a \<Rightarrow> 'a) \<Rightarrow> panic + 'a option" where
  "store p upd = (case p of None \<Rightarrow> Inl NilPointerDereference | Some x \<Rightarrow> Inr (Some (upd x)))"

subsection \<open>FsKernelMetrics\<close>

text \<open>
  The collaborators are parameters: \<open>toMetric\<close> (declared elsewhere in the package),
  \<open>percent a m\<close> for
  \<^verbatim>\<open>common.SetPrecision(float64(a)*100/float64(m), 2)\<close>, and the results of
  \<^verbatim>\<open>nux.KernelMaxFiles()\<close> and \<^verbatim>\<open>nux.KernelAllocateFiles()\<close>.
\<close>

definition FsKernelMetrics ::
  "(string \<Rightarrow> 'f metric_value \<Rightarrow> tags \<Rightarrow> 'm) \<Rightarrow> (64 word \<Rightarrow> 64 word \<Rightarrow> 'f) \<Rightarrow>
   error + 64 word \<Rightarrow> error + 64 word \<Rightarrow> 'm list \<times> log_entry list" where
  "FsKernelMetrics toMetric percent KernelMaxFiles KernelAllocateFiles =
     (case KernelMaxFiles of
        Inl err \<Rightarrow> ([], [LogError ''failed collect kernel metrics:'' err])
      | Inr maxFiles \<Rightarrow>
          (let L = [toMetric ''kernel.files.max'' (Uint64 maxFiles) Map.empty] in
           case KernelAllocateFiles of
             Inl err \<Rightarrow> (L, [LogError ''failed to call KernelAllocateFiles:'' err])
           | Inr allocateFiles \<Rightarrow>
               (let v = percent allocateFiles maxFiles;
                    L = L @ [toMetric ''kernel.files.allocated'' (Uint64 allocateFiles) Map.empty];
                    L = L @ [toMetric ''kernel.files.allocated.percent'' (Float64 v) Map.empty];
                    L = L @ [toMetric ''kernel.files.left'' (Uint64 (maxFiles - allocateFiles)) Map.empty]
                in (L, []))))"

subsection \<open>PsMetrics\<close>

text \<open>
  \<^verbatim>\<open>bytes.Fields\<close> on the output of \<^verbatim>\<open>ps axo state\<close>: the maximal runs of
  bytes that are not white space. The white space is the ASCII one (tab, line feed,
  vertical tab, form feed, carriage return, space); the output of \<^verbatim>\<open>ps\<close> is ASCII.
\<close>

definition isSpace :: "char \<Rightarrow> bool" where
  "isSpace c = (c = CHR 0x09 \<or> c = CHR 0x0A \<or> c = CHR 0x0B \<or> c = CHR 0x0C \<or> c = CHR 0x0D \<or> c = CHR '' '')"

fun FieldsFrom :: "string \<Rightarrow> string \<Rightarrow> string list" where
  "FieldsFrom cur [] = (if cur = [] then [] else [cur])"
| "FieldsFrom cur (c # cs) =
     (if isSpace c then (if cur = [] then FieldsFrom [] cs else cur # FieldsFrom [] cs)
      else FieldsFrom (cur @ [c]) cs)"

definition Fields :: "string \<Rightarrow> string list" where
  "Fields out = FieldsFrom [] out"

text \<open>
  \<^verbatim>\<open>fields\<close> (here \<open>flds\<close>) is a \<^verbatim>\<open>map[string]int64\<close>: reading a missing key gives 0, and
  \<^verbatim>\<open>fields[k] = fields[k] + int64(1)\<close> wraps around as \<^verbatim>\<open>int64\<close> does.
\<close>

type_synonym counters = "string \<rightharpoonup> 64 word"

definition get :: "counters \<Rightarrow> string \<Rightarrow> 64 word" where
  "get flds k = (case flds k of None \<Rightarrow> 0 | Some v \<Rightarrow> v)"

definition incr :: "counters \<Rightarrow> string \<Rightarrow> counters" where
  "incr flds k = flds(k \<mapsto> get flds k + 1)"

text \<open>The \<^verbatim>\<open>switch status[0]\<close> of the loop body, in the order of its cases.\<close>

definition switchState :: "char \<Rightarrow> counters \<Rightarrow> counters \<times> log_entry list" where
  "switchState c flds =
     (if c = CHR ''W'' then (incr flds ''wait'', [])
      else if c = CHR ''U'' \<or> c = CHR ''D'' \<or> c = CHR ''L'' then (incr flds ''blocked'', [])
      else if c = CHR ''Z'' then (incr flds ''zombies'', [])
      else if c = CHR ''T'' then (incr flds ''stopped'', [])
      else if c = CHR ''R'' then (incr flds ''running'', [])
      else if c = CHR ''S'' then (incr flds ''sleeping'', [])
      else if c = CHR ''I'' then (incr flds ''idle'', [])
      else if c = CHR ''X'' then (incr flds ''exit'', [])
      else if c = CHR ''?'' then (incr flds ''unknown'', [])
      else (flds, [LogErrorf ''processes: Unknown state [ %s ] from ps'' [c]]))"

text \<open>
  The loop \<^verbatim>\<open>for i, status := range bytes.Fields(out)\<close>. \<^verbatim>\<open>status[0]\<close> on an
  empty token would be an index out of range.
\<close>

fun PsLoop :: "nat \<Rightarrow> string list \<Rightarrow> counters \<Rightarrow> log_entry list \<Rightarrow> panic + counters \<times> log_entry list" where
  "PsLoop i [] flds logs = Inr (flds, logs)"
| "PsLoop i (status # rest) flds logs =
     (if i = 0 \<and> status = ''STAT'' then PsLoop (Suc i) rest flds logs
      else case status of
        [] \<Rightarrow> Inl IndexOutOfRange
      | c # _ \<Rightarrow>
          (case switchState c flds of
             (flds, logged) \<Rightarrow> PsLoop (Suc i) rest (incr flds ''total'') (logs @ logged)))"

definition PsMetrics ::
  "(string \<Rightarrow> 'f metric_value \<Rightarrow> tags \<Rightarrow> 'm) \<Rightarrow> error + string \<Rightarrow> panic + 'm list \<times> log_entry list" where
  "PsMetrics toMetric execPS =
     (case execPS of
        Inl err \<Rightarrow> Inr ([], [LogError ''failed to call ps command:'' err])
      | Inr out \<Rightarrow>
          (case PsLoop 0 (Fields out) Map.empty [] of
             Inl p \<Rightarrow> Inl p
           | Inr (flds, logs) \<Rightarrow>
               Inr ([toMetric ''ps.zombies.num'' (Int64 (get flds ''zombies'')) Map.empty,
                     toMetric ''ps.running.num'' (Int64 (get flds ''running'')) Map.empty,
                     toMetric ''ps.total.num'' (Int64 (get flds ''total'')) Map.empty], logs)))"

subsection \<open>Login records: the on-disk layout and the reader\<close>

type_synonym byte = "8 word"

record ExitStatus =
  Termination :: "16 word"
  Exit :: "16 word"

record TimeVal =
  Sec :: "32 word"
  Usec :: "32 word"

text \<open>
  \<^verbatim>\<open>Utmp\<close>, its fields prefixed with \<open>u\<close> (the fields of \<^verbatim>\<open>GoUtmp\<close>, which
  has the same names, are prefixed with \<open>g\<close>). \<^verbatim>\<open>Addr [4]int32\<close> is a 4-tuple.
\<close>

record Utmp =
  uType :: "16 word"
  uPid :: "32 word"
  uDevice :: "byte list"
  uId :: "byte list"
  uUser :: "byte list"
  uHost :: "byte list"
  uExit :: ExitStatus
  uSession :: "32 word"
  uTime :: TimeVal
  uAddr :: "32 word \<times> 32 word \<times> 32 word \<times> 32 word"
  uReserved :: "byte list"

definition LineSize :: nat where "LineSize = 32"
definition NameSize :: nat where "NameSize = 32"
definition HostSize :: nat where "HostSize = 256"

text \<open>
  \<^verbatim>\<open>binary.Size\<close> of \<^verbatim>\<open>Utmp\<close>: 2 + 2 (alignment) + 4 + 32 + 4 + 32 + 256 + 4 + 4 + 8
  + 16 + 20 bytes.
\<close>

definition recordSize :: nat where
  "recordSize = 2 + 2 + 4 + LineSize + 4 + NameSize + HostSize + 4 + 4 + 8 + 16 + 20"

primrec LittleEndian :: "byte list \<Rightarrow> 'a::len word" where
  "LittleEndian [] = 0"
| "LittleEndian (b # bs) = ucast b OR push_bit 8 (LittleEndian bs)"

definition bytesAt :: "nat \<Rightarrow> nat \<Rightarrow> byte list \<Rightarrow> byte list" where
  "bytesAt off n bs = take n (drop off bs)"

text \<open>
  What \<^verbatim>\<open>binary.Read(file, binary.LittleEndian, u)\<close> stores in \<^verbatim>\<open>u\<close> from the
  \<open>recordSize\<close> bytes it read: the fields in declaration order, the blank alignment
  field skipped.
\<close>

definition decodeUtmp :: "byte list \<Rightarrow> Utmp" where
  "decodeUtmp bs =
     \<lparr> uType = LittleEndian (bytesAt 0 2 bs),
       uPid = LittleEndian (bytesAt 4 4 bs),
       uDevice = bytesAt 8 LineSize bs,
       uId = bytesAt 40 4 bs,
       uUser = bytesAt 44 NameSize bs,
       uHost = bytesAt 76 HostSize bs,
       uExit = \<lparr> Termination = LittleEndian (bytesAt 332 2 bs), Exit = LittleEndian (bytesAt 334 2 bs) \<rparr>,
       uSession = LittleEndian (bytesAt 336 4 bs),
       uTime = \<lparr> Sec = LittleEndian (bytesAt 340 4 bs), Usec = LittleEndian (bytesAt 344 4 bs) \<rparr>,
       uAddr = (LittleEndian (bytesAt 348 4 bs), LittleEndian (bytesAt 352 4 bs),
                LittleEndian (bytesAt 356 4 bs), LittleEndian (bytesAt 360 4 bs)),
       uReserved = bytesAt 364 20 bs \<rparr>"

text \<open>
  The file is the list of the bytes not yet read. \<^verbatim>\<open>binary.Read\<close> reads with
  \<^verbatim>\<open>io.ReadFull\<close>: \<^verbatim>\<open>io.EOF\<close> when no byte is left,
  \<^verbatim>\<open>io.ErrUnexpectedEOF\<close> when fewer than \<open>recordSize\<close> are. It returns the result and
  the rest of the file.
\<close>

definition binaryRead :: "byte list \<Rightarrow> (error + Utmp) \<times> byte list" where
  "binaryRead file =
     (if recordSize \<le> length file
      then (Inr (decodeUtmp (take recordSize file)), drop recordSize file)
      else if file = [] then (Inl EOF, [])
      else (Inl ErrUnexpectedEOF, []))"

definition readLine :: "byte list \<Rightarrow> (error + Utmp) \<times> byte list" where
  "readLine file =
     (case binaryRead file of
        (Inl err, file') \<Rightarrow> (Inl err, file')
      | (Inr u, file') \<Rightarrow> (Inr u, file'))"

text \<open>
  The loop of \<^verbatim>\<open>Read\<close>, with \<^verbatim>\<open>us\<close> as accumulator. The result is Go's pair:
  the records and the error (\<open>None\<close> for \<^verbatim>\<open>nil\<close>); \<^verbatim>\<open>return nil, readErr\<close>
  returns the empty list.
\<close>

function ReadLoop :: "byte list \<Rightarrow> Utmp list \<Rightarrow> Utmp list \<times> error option" where
  "ReadLoop file us =
     (case readLine file of
        (Inl readErr, file') \<Rightarrow> (if readErr = EOF then (us, None) else ([], Some readErr))
      | (Inr u, file') \<Rightarrow> ReadLoop file' (us @ [u]))"
  by pat_completeness auto
termination
proof (relation "measure (\<lambda>(file, us). length file)")
  show "wf (measure (\<lambda>(file, us). length file))" by simp
next
  fix bs :: "byte list" and us :: "Utmp list" and x y u
  assume "(x, y) = readLine bs" and "x = Inr u"
  then have "recordSize \<le> length bs" and "y = drop recordSize bs"
    by (auto simp: readLine_def binaryRead_def split: if_splits)
  moreover have "0 < recordSize" by (simp add: recordSize_def)
  ultimately show "((y, us @ [u]), (bs, us)) \<in> measure (\<lambda>(file, us). length file)"
    by simp
qed

definition Read :: "byte list \<Rightarrow> Utmp list \<times> error option" where
  "Read file = ReadLoop file []"

subsection \<open>Login records: normalization\<close>

record GoExitStatus =
  gTermination :: int
  gExitCode :: int

text \<open>A \<^verbatim>\<open>time.Time\<close> is the number of nanoseconds since the Unix epoch.\<close>

type_synonym Time = int

definition Unix :: "int \<Rightarrow> int \<Rightarrow> Time" where
  "Unix sec nsec = sec * 1000000000 + nsec"

definition UnixSeconds :: "Time \<Rightarrow> int" where
  "UnixSeconds t = t div 1000000000"

definition After :: "Time \<Rightarrow> Time \<Rightarrow> bool" where
  "After t u = (u < t)"

definition Add :: "Time \<Rightarrow> int \<Rightarrow> Time" where
  "Add t d = t + d"

definition Minute :: int where
  "Minute = 60 * 1000000000"

record GoUtmp =
  gType :: int
  gPid :: int
  gDevice :: string
  gId :: string
  gUser :: string
  gHost :: string
  gExit :: GoExitStatus
  gSession :: int
  gTime :: Time
  gAddr :: string

text \<open>\<^verbatim>\<open>bytes.IndexByte\<close>: the index of the first occurrence, or -1.\<close>

fun IndexByteFrom :: "nat \<Rightarrow> byte list \<Rightarrow> byte \<Rightarrow> int" where
  "IndexByteFrom i [] c = - 1"
| "IndexByteFrom i (x # xs) c = (if x = c then int i else IndexByteFrom (Suc i) xs c)"

definition IndexByte :: "byte list \<Rightarrow> byte \<Rightarrow> int" where
  "IndexByte b c = IndexByteFrom 0 b c"

definition getByteLen :: "byte list \<Rightarrow> int" where
  "getByteLen byteArray = (let n = IndexByte byteArray 0 in if n = - 1 then 0 else n)"

text \<open>The conversion \<^verbatim>\<open>string(b)\<close> of a byte slice.\<close>

definition goString :: "byte list \<Rightarrow> string" where
  "goString b = map (\<lambda>x. char_of (unat x)) b"

text \<open>
  \<^verbatim>\<open>fmt.Sprintf\<close> with the verbs \<^verbatim>\<open>%d\<close> and \<^verbatim>\<open>%x\<close> on an integer: the digits
  without padding, lower case, after a minus sign when the value is negative.
\<close>

definition digitChar :: "nat \<Rightarrow> char" where
  "digitChar d = ''0123456789abcdef'' ! d"

fun decimal :: "nat \<Rightarrow> string" where
  "decimal n = (if n < 10 then [digitChar n] else decimal (n div 10) @ [digitChar (n mod 10)])"

fun hexadecimal :: "nat \<Rightarrow> string" where
  "hexadecimal n = (if n < 16 then [digitChar n] else hexadecimal (n div 16) @ [digitChar (n mod 16)])"

definition fmt_d :: "int \<Rightarrow> string" where
  "fmt_d v = (if v < 0 then CHR ''-'' # decimal (nat (- v)) else decimal (nat v))"

definition fmt_x :: "int \<Rightarrow> string" where
  "fmt_x v = (if v < 0 then CHR ''-'' # hexadecimal (nat (- v)) else hexadecimal (nat v))"

text \<open>
  \<^verbatim>\<open>addrToString\<close>. On \<^verbatim>\<open>int32\<close>, \<^verbatim>\<open>>>\<close> is the arithmetic shift
  (\<open>signed_drop_bit\<close>) and the operands of \<^verbatim>\<open>%d\<close> and \<^verbatim>\<open>%x\<close> are signed (\<open>sint\<close>).
\<close>

definition addrToString :: "32 word \<times> 32 word \<times> 32 word \<times> 32 word \<Rightarrow> string" where
  "addrToString addr =
     (case addr of (addr0, addr1, addr2, addr3) \<Rightarrow>
        if addr1 = 0 \<and> addr2 = 0 \<and> addr3 = 0 then
          fmt_d (sint (addr0 AND 0xFF)) @ ''.'' @
          fmt_d (sint (signed_drop_bit 8 addr0 AND 0xFF)) @ ''.'' @
          fmt_d (sint (signed_drop_bit 16 addr0 AND 0xFF)) @ ''.'' @
          fmt_d (sint (signed_drop_bit 24 addr0 AND 0xFF))
        else
          fmt_x (sint (addr0 AND 0xffff)) @ '':'' @
          fmt_x (sint (signed_drop_bit 16 addr0 AND 0xffff)) @ '':'' @
          fmt_x (sint (addr1 AND 0xffff)) @ '':'' @
          fmt_x (sint (signed_drop_bit 16 addr1 AND 0xffff)) @ '':'' @
          fmt_x (sint (addr2 AND 0xffff)) @ '':'' @
          fmt_x (sint (signed_drop_bit 16 addr2 AND 0xffff)) @ '':'' @
          fmt_x (sint (addr3 AND 0xffff)) @ '':'' @
          fmt_x (sint (signed_drop_bit 16 addr3 AND 0xffff)))"

definition NewGoUtmp :: "Utmp \<Rightarrow> GoUtmp" where
  "NewGoUtmp u =
     \<lparr> gType = sint (uType u),
       gPid = sint (uPid u),
       gDevice = goString (take (nat (getByteLen (uDevice u))) (uDevice u)),
       gId = goString (take (nat (getByteLen (uId u))) (uId u)),
       gUser = goString (take (nat (getByteLen (uUser u))) (uUser u)),
       gHost = goString (take (nat (getByteLen (uHost u))) (uHost u)),
       gExit = \<lparr> gTermination = sint (Termination (uExit u)), gExitCode = sint (Exit (uExit u)) \<rparr>,
       gSession = sint (uSession u),
       gTime = Unix (sint (Sec (uTime u))) 0,
       gAddr = addrToString (uAddr u) \<rparr>"

subsection \<open>WtmpMetrics\<close>

text \<open>
  The loop \<^verbatim>\<open>for _, gu := range utmps\<close>. \<open>clock i\<close> is what \<^verbatim>\<open>time.Now()\<close>
  returns in iteration \<open>i\<close>. \<^verbatim>\<open>var m *common.Metric\<close> declares a nil pointer, and
  the four assignments store through it.
\<close>

fun WtmpLoop :: "(nat \<Rightarrow> Time) \<Rightarrow> nat \<Rightarrow> Utmp list \<Rightarrow> 'f MetricPtr list \<Rightarrow> panic + 'f MetricPtr list" where
  "WtmpLoop clock i [] L = Inr L"
| "WtmpLoop clock i (gu # rest) L =
     (let tmp = NewGoUtmp gu;
          now = clock i
      in if After (gTime tmp) (Add now (Minute * - 5)) then
           (let m = None in
            case store m (\<lambda>r. r\<lparr>Name := ''kernel.user.login''\<rparr>) of Inl p \<Rightarrow> Inl p | Inr m \<Rightarrow>
           (case store m (\<lambda>r. r\<lparr>Value := IntConst 1\<rparr>) of Inl p \<Rightarrow> Inl p | Inr m \<Rightarrow>
           (case store m (\<lambda>r. r\<lparr>Timestamp := UnixSeconds (gTime tmp)\<rparr>) of Inl p \<Rightarrow> Inl p | Inr m \<Rightarrow>
           (case store m (\<lambda>r. r\<lparr>Tags := [''user'' \<mapsto> gUser tmp, ''host'' \<mapsto> gHost tmp]\<rparr>) of
              Inl p \<Rightarrow> Inl p
            | Inr m \<Rightarrow> WtmpLoop clock (Suc i) rest (L @ [m])))))
         else WtmpLoop clock (Suc i) rest L)"

text \<open>
  \<open>openFile\<close> is the result of \<^verbatim>\<open>os.Open("/var/log/wtmp")\<close>: an error, or the bytes
  of the file. The deferred \<^verbatim>\<open>file.Close()\<close> returns an error on a nil file and has
  no other effect.
\<close>

definition WtmpMetrics ::
  "error + byte list \<Rightarrow> (nat \<Rightarrow> Time) \<Rightarrow> panic + 'f MetricPtr list \<times> log_entry list" where
  "WtmpMetrics openFile clock =
     (case openFile of
        Inl err \<Rightarrow> Inr ([], [LogError ''open wtmp file failed:'' err])
      | Inr file \<Rightarrow>
          (case Read file of
             (utmps, Some err) \<Rightarrow> Inr ([], [LogError ''read wtmp file failed:'' err])
           | (utmps, None) \<Rightarrow>
               (case WtmpLoop clock 0 utmps [] of
                  Inl p \<Rightarrow> Inl p
                | Inr L \<Rightarrow> Inr (L, []))))"

subsection \<open>IsIntranet\<close>

text \<open>\<^verbatim>\<open>strings.HasPrefix\<close>.\<close>

definition HasPrefix :: "string \<Rightarrow> string \<Rightarrow> bool" where
  "HasPrefix s pre = (length pre \<le> length s \<and> take (length pre) s = pre)"

text \<open>
  \<^verbatim>\<open>strings.Split(s, sep)\<close> for a separator of one byte: the pieces between the
  occurrences of the separator, one more than there are occurrences.
\<close>

fun SplitFrom :: "string \<Rightarrow> string \<Rightarrow> char \<Rightarrow> string list" where
  "SplitFrom cur [] sep = [cur]"
| "SplitFrom cur (c # cs) sep =
     (if c = sep then cur # SplitFrom [] cs sep else SplitFrom (cur @ [c]) cs sep)"

definition Split :: "string \<Rightarrow> char \<Rightarrow> string list" where
  "Split s sep = SplitFrom [] s sep"

text \<open>
  \<^verbatim>\<open>strconv.ParseUint(s, 10, 64)\<close>: the digits are read from the left; a byte that
  is no decimal digit is a syntax error, a value beyond \<open>2 ^ 64 - 1\<close> a range error.
\<close>

definition maxUint64 :: nat where
  "maxUint64 = 2 ^ 64 - 1"

fun ParseUintFrom :: "nat \<Rightarrow> string \<Rightarrow> error + nat" where
  "ParseUintFrom n [] = Inr n"
| "ParseUintFrom n (c # cs) =
     (if 48 \<le> (of_char c :: nat) \<and> (of_char c :: nat) \<le> 57 then
        (let d = of_char c - 48 in
         if n \<ge> maxUint64 div 10 + 1 then Inl ErrRange
         else let n1 = n * 10 + d in
              if n1 > maxUint64 then Inl ErrRange else ParseUintFrom n1 cs)
      else Inl ErrSyntax)"

definition ParseUint :: "string \<Rightarrow> error + nat" where
  "ParseUint s = (if s = [] then Inl ErrSyntax else ParseUintFrom 0 s)"

text \<open>
  \<^verbatim>\<open>strconv.ParseInt(s, 10, 64)\<close>: an optional sign, then \<^verbatim>\<open>ParseUint\<close>, then the
  range check of \<^verbatim>\<open>int64\<close>.
\<close>

definition ParseInt :: "string \<Rightarrow> error + int" where
  "ParseInt s =
     (case s of
        [] \<Rightarrow> Inl ErrSyntax
      | c # cs \<Rightarrow>
          (let neg = (c = CHR ''-'');
               s' = (if c = CHR ''+'' \<or> c = CHR ''-'' then cs else s)
           in case ParseUint s' of
                Inl err \<Rightarrow> Inl err
              | Inr un \<Rightarrow>
                  if \<not> neg \<and> un \<ge> 2 ^ 63 then Inl ErrRange
                  else if neg \<and> un > 2 ^ 63 then Inl ErrRange
                  else Inr (if neg then - int un else int un)))"

definition IsIntranet :: "string \<Rightarrow> bool" where
  "IsIntranet ipStr =
     (if HasPrefix ipStr ''10.'' \<or> HasPrefix ipStr ''192.168.'' then True
      else if HasPrefix ipStr ''172.'' then
        (let arr = Split ipStr CHR ''.'' in
         if length arr \<noteq> 4 then False
         else case ParseInt (arr ! 1) of
                Inl err \<Rightarrow> False
              | Inr second \<Rightarrow> if second \<ge> 16 \<and> second \<le> 31 then True else False)
      else False)"

section \<open>Definitions that follow the specification's words\<close>

text \<open>
  The properties below compare the code with these: the byte of an IPv4 word, the
  dotted quad, the two halves of an address word, the pieces of a rendered address, the
  string of a null-terminated buffer, and two collaborators to run the code with.
\<close>

definition ipv4Component :: "32 word \<Rightarrow> nat \<Rightarrow> nat" where
  "ipv4Component w i = unat (drop_bit (8 * i) w AND 0xFF)"

definition dottedQuad :: "nat \<Rightarrow> nat \<Rightarrow> nat \<Rightarrow> nat \<Rightarrow> string" where
  "dottedQuad a b c d = decimal a @ ''.'' @ decimal b @ ''.'' @ decimal c @ ''.'' @ decimal d"

definition encodeIPv4 :: "byte \<Rightarrow> byte \<Rightarrow> byte \<Rightarrow> byte \<Rightarrow> 32 word" where
  "encodeIPv4 a b c d = ucast a OR push_bit 8 (ucast b) OR push_bit 16 (ucast c) OR push_bit 24 (ucast d)"

definition loHextet :: "32 word \<Rightarrow> nat" where
  "loHextet w = unat (w AND 0xffff)"

definition hiHextet :: "32 word \<Rightarrow> nat" where
  "hiHextet w = unat (drop_bit 16 w)"

definition hextets :: "string \<Rightarrow> string list" where
  "hextets s = Split s CHR '':''"

definition cString :: "byte list \<Rightarrow> string" where
  "cString b = (if 0 \<in> set b then goString (takeWhile (\<lambda>x. x \<noteq> 0) b) else [])"

definition recordCall :: "string \<Rightarrow> 'f metric_value \<Rightarrow> tags \<Rightarrow> string \<times> 'f metric_value" where
  "recordCall name v t = (name, v)"

definition noPercent :: "64 word \<Rightarrow> 64 word \<Rightarrow> unit" where
  "noPercent a m = ()"

section \<open>Properties\<close>

subsection \<open>Address rendering\<close>

declare decimal.simps [simp del] hexadecimal.simps [simp del]

lemma signed_shift_mask:
  "n + k \<le> 32 \<Longrightarrow> signed_drop_bit k (w::32 word) AND mask n = drop_bit k w AND mask n"
  by (rule bit_word_eqI) (auto simp: bit_simps)

lemma sint_and_mask: "n < 32 \<Longrightarrow> sint ((x::32 word) AND mask n) = uint (x AND mask n)"
  by (rule bit_eqI) (auto simp: bit_simps bit_sint_iff bit_uint_iff)

lemma mask_FF: "(0xFF :: 32 word) = mask 8"
  by (simp add: mask_eq_exp_minus_1)

lemma mask_FFFF: "(0xffff :: 32 word) = mask 16"
  by (simp add: mask_eq_exp_minus_1)

lemma fmt_d_uint: "fmt_d (uint x) = decimal (unat x)"
  by (simp add: fmt_d_def)

lemma fmt_x_uint: "fmt_x (uint x) = hexadecimal (unat x)"
  by (simp add: fmt_x_def)

lemma fmt_d_byte:
  assumes "k \<le> 24"
  shows "fmt_d (sint (signed_drop_bit k (w::32 word) AND 0xFF)) = decimal (unat (drop_bit k w AND 0xFF))"
proof -
  have "signed_drop_bit k w AND mask 8 = drop_bit k w AND mask 8"
    using assms by (simp add: signed_shift_mask)
  then have "sint (signed_drop_bit k w AND mask 8) = uint (drop_bit k w AND mask 8)"
    by (simp add: sint_and_mask)
  then show ?thesis
    unfolding mask_FF by (simp only: fmt_d_uint)
qed

lemma fmt_x_lo: "fmt_x (sint ((w::32 word) AND 0xffff)) = hexadecimal (loHextet w)"
proof -
  have "sint (w AND mask 16) = uint (w AND mask 16)"
    by (simp add: sint_and_mask)
  then show ?thesis
    unfolding mask_FFFF loHextet_def by (simp only: fmt_x_uint)
qed

lemma drop16_mask: "drop_bit 16 (w::32 word) AND mask 16 = drop_bit 16 w"
  by (rule bit_word_eqI) (auto simp: bit_simps dest: bit_imp_le_length)

lemma addrToString_v4_components:
  "addrToString (w, 0, 0, 0) =
     dottedQuad (ipv4Component w 0) (ipv4Component w 1) (ipv4Component w 2) (ipv4Component w 3)"
  using fmt_d_byte [of 0 w] fmt_d_byte [of 8 w] fmt_d_byte [of 16 w] fmt_d_byte [of 24 w]
  by (simp add: addrToString_def dottedQuad_def ipv4Component_def)

lemma unat_ucast_byte: "unat (ucast (a::byte) :: 32 word) = unat a"
  by (rule bit_eqI) (auto simp: bit_simps dest: bit_imp_le_length)

lemma loHextet_shift: "loHextet (signed_drop_bit 16 w) = hiHextet w"
proof -
  have "signed_drop_bit 16 w AND mask 16 = drop_bit 16 w AND mask 16"
    by (simp add: signed_shift_mask)
  then show ?thesis
    unfolding loHextet_def hiHextet_def mask_FFFF by (simp only: drop16_mask)
qed

lemma component_encode0: "ipv4Component (encodeIPv4 a b c d) 0 = unat a"
proof -
  have "encodeIPv4 a b c d AND mask 8 = ucast a"
    unfolding encodeIPv4_def by (rule bit_word_eqI) (auto simp: bit_simps dest: bit_imp_le_length)
  then show ?thesis
    unfolding ipv4Component_def mask_FF by (simp add: unat_ucast_byte)
qed

lemma component_encode1: "ipv4Component (encodeIPv4 a b c d) 1 = unat b"
proof -
  have "drop_bit 8 (encodeIPv4 a b c d) AND mask 8 = ucast b"
    unfolding encodeIPv4_def by (rule bit_word_eqI) (auto simp: bit_simps dest: bit_imp_le_length)
  then show ?thesis
    unfolding ipv4Component_def mask_FF by (simp add: unat_ucast_byte)
qed

lemma component_encode2: "ipv4Component (encodeIPv4 a b c d) 2 = unat c"
proof -
  have "drop_bit 16 (encodeIPv4 a b c d) AND mask 8 = ucast c"
    unfolding encodeIPv4_def by (rule bit_word_eqI) (auto simp: bit_simps dest: bit_imp_le_length)
  then show ?thesis
    unfolding ipv4Component_def mask_FF by (simp add: unat_ucast_byte)
qed

lemma component_encode3: "ipv4Component (encodeIPv4 a b c d) 3 = unat d"
proof -
  have "drop_bit 24 (encodeIPv4 a b c d) AND mask 8 = ucast d"
    unfolding encodeIPv4_def by (rule bit_word_eqI) (auto simp: bit_simps dest: bit_imp_le_length)
  then show ?thesis
    unfolding ipv4Component_def mask_FF by (simp add: unat_ucast_byte)
qed

text \<open>
  Claim C9. With words 2, 3 and 4 zero, the address is rendered as the dotted quad whose
  component \<open>i\<close> is \<open>(w >> (8 * i)) & 0xFF\<close> of word 1, for every 32-bit word \<open>w\<close>
  (the arithmetic shift of the code and the logical one agree under the mask). Hence the
  round trip: the four bytes of an IPv4 address packed little-endian into word 1 come
  back as the same dotted quad, and \<open>0x0100007F\<close> gives \<open>127.0.0.1\<close>.
\<close>

theorem addrToString_ipv4:
  "addrToString (w, 0, 0, 0) =
     dottedQuad (ipv4Component w 0) (ipv4Component w 1) (ipv4Component w 2) (ipv4Component w 3)
   \<and> addrToString (encodeIPv4 a b c d, 0, 0, 0) = dottedQuad (unat a) (unat b) (unat c) (unat d)
   \<and> addrToString (0x0100007F, 0, 0, 0) = ''127.0.0.1''"
proof (intro conjI)
  show "addrToString (w, 0, 0, 0) =
     dottedQuad (ipv4Component w 0) (ipv4Component w 1) (ipv4Component w 2) (ipv4Component w 3)"
    by (rule addrToString_v4_components)
  show "addrToString (encodeIPv4 a b c d, 0, 0, 0) = dottedQuad (unat a) (unat b) (unat c) (unat d)"
    by (simp only: addrToString_v4_components component_encode0 component_encode1
        component_encode2 component_encode3)
  show "addrToString (0x0100007F, 0, 0, 0) = ''127.0.0.1''"
    by (simp add: addrToString_def fmt_d_def digitChar_def decimal.simps)
qed

theorem addrToString_ipv4_witness:
  "addrToString (encodeIPv4 192 168 0 1, 0, 0, 0) = ''192.168.0.1''"
  using addrToString_ipv4 [of 0 192 168 0 1]
  by (simp add: dottedQuad_def digitChar_def decimal.simps)

lemma addrToString_v6_hextets:
  assumes "\<not> (b = 0 \<and> c = 0 \<and> d = 0)"
  shows "addrToString (a, b, c, d) =
        hexadecimal (loHextet a) @ '':'' @ hexadecimal (hiHextet a) @ '':'' @
        hexadecimal (loHextet b) @ '':'' @ hexadecimal (hiHextet b) @ '':'' @
        hexadecimal (loHextet c) @ '':'' @ hexadecimal (hiHextet c) @ '':'' @
        hexadecimal (loHextet d) @ '':'' @ hexadecimal (hiHextet d)"
  using assms by (auto simp add: addrToString_def fmt_x_lo loHextet_shift)

lemma addrToString_v6_example: "addrToString (0, 0, 0, 1) = ''0:0:0:0:0:0:1:0''"
  by (simp add: addrToString_def fmt_x_def digitChar_def hexadecimal.simps)

lemma hextets_example:
  "hextets ''0:0:0:0:0:0:1:0'' = [''0'', ''0'', ''0'', ''0'', ''0'', ''0'', ''1'', ''0'']"
  by (simp add: hextets_def Split_def)

text \<open>
  Claim C3, as amended. When words 2 to 4 are not all zero the address is rendered as
  eight hextets in the order word1-low, word1-high, ..., word4-low, word4-high. For the
  words \<open>[0, 0, 0, 1]\<close> this order puts the \<open>1\<close> in the seventh hextet, word4-low,
  and \<open>0\<close> in the eighth, word4-high: the string is \<open>0:0:0:0:0:0:1:0\<close>.
\<close>

theorem addrToString_ipv6:
  "(\<not> (b = 0 \<and> c = 0 \<and> d = 0) \<longrightarrow>
      addrToString (a, b, c, d) =
        hexadecimal (loHextet a) @ '':'' @ hexadecimal (hiHextet a) @ '':'' @
        hexadecimal (loHextet b) @ '':'' @ hexadecimal (hiHextet b) @ '':'' @
        hexadecimal (loHextet c) @ '':'' @ hexadecimal (hiHextet c) @ '':'' @
        hexadecimal (loHextet d) @ '':'' @ hexadecimal (hiHextet d))
   \<and> hextets (addrToString (0, 0, 0, 1)) = [''0'', ''0'', ''0'', ''0'', ''0'', ''0'', ''1'', ''0'']"
  using addrToString_v6_hextets [of b c d a]
  by (simp only: addrToString_v6_example hextets_example) blast

theorem addrToString_ipv6_witness:
  "addrToString (0x0DB82001, 0, 0, 0x00010000) = ''2001:db8:0:0:0:0:0:1''"
  using addrToString_ipv6 [where a = "0x0DB82001" and b = 0 and c = 0 and d = "0x00010000"]
  by (simp add: loHextet_def hiHextet_def digitChar_def hexadecimal.simps)

text \<open>
  The claim as first stated, last hextet \<open>1\<close> after seven hextets \<open>0\<close>, fails on
  that very input.
\<close>

theorem addrToString_ipv6_counterexample:
  "\<not> (last (hextets (addrToString (0, 0, 0, 1))) = ''1''
      \<and> butlast (hextets (addrToString (0, 0, 0, 1))) = replicate 7 ''0'')"
  by (simp add: addrToString_v6_example hextets_example)


end
